theory Spec2Isabelle
  imports Main "HOL-Library.AList"
begin

section \<open>ghReleaseDownloader: listing and downloading the releases of a repository\<close>

text \<open>
  A shallow embedding of \<^verbatim>\<open>src/python/ghReleaseDownloader.py\<close>. The class
  \<^verbatim>\<open>ghReleaseDownloader\<close> becomes a record of its attributes, each method a function
  that takes the client and returns the raised exception or the result, the client as the
  method leaves it, and the trace of the library calls it made. The three libraries the
  module calls (\<^verbatim>\<open>requests\<close>, \<^verbatim>\<open>datatable\<close>, \<^verbatim>\<open>tarfile\<close>)
  and \<^verbatim>\<open>datetime.strptime\<close> are not part of the repository; the few operations of
  them that the module uses are modelled below, each with the behaviour it is given.
\<close>

subsection \<open>Values and exceptions\<close>

text \<open>
  The value \<^verbatim>\<open>resp.json()\<close> returns. \<open>JNull\<close> is Python's \<^verbatim>\<open>None\<close>;
  numbers are integers (a release object carries no fractional number); the pairs of
  \<open>JObj\<close> are the items of a \<^verbatim>\<open>dict\<close>, whose keys are distinct.
\<close>

datatype json =
    JNull
  | JBool bool
  | JNum int
  | JStr string
  | JArr "json list"
  | JObj "(string \<times> json) list"

text \<open>
  The exceptions a method can end with. \<open>SystemError e\<close> is
  \<^verbatim>\<open>raise SystemError(e)\<close>, wrapping the caught exception; \<open>HTTPError s\<close> is what
  \<^verbatim>\<open>raise_for_status\<close> raises for status \<open>s\<close>; \<open>RequestException\<close> stands for
  every exception of \<^verbatim>\<open>requests\<close> that is not an \<^verbatim>\<open>HTTPError\<close>
  (\<^verbatim>\<open>ConnectionError\<close>, \<^verbatim>\<open>Timeout\<close>, \<^verbatim>\<open>MissingSchema\<close>);
  \<open>ReadError\<close> is \<^verbatim>\<open>tarfile.ReadError\<close>.
\<close>

datatype error =
    SystemError error
  | HTTPError nat
  | RequestException
  | JSONDecodeError
  | ReadError
  | ValueError
  | TypeError
  | AttributeError
  | IndexError
  | KeyError string

subsection \<open>Dates: \<^verbatim>\<open>datetime.strptime(s, '%Y-%m-%dT%H:%M:%SZ').date()\<close>\<close>

record date =
  year :: nat
  month :: nat
  day :: nat

definition is_digit :: "char \<Rightarrow> bool" where
  "is_digit c = (c \<in> set ''0123456789'')"

definition digit_val :: "char \<Rightarrow> nat" where
  "digit_val c = of_char c - 48"

definition digit_char :: "nat \<Rightarrow> char" where
  "digit_char n = ''0123456789'' ! (n mod 10)"

definition in_range :: "char \<Rightarrow> char \<Rightarrow> char \<Rightarrow> bool" where
  "in_range lo hi c = (is_digit c \<and> digit_val lo \<le> digit_val c \<and> digit_val c \<le> digit_val hi)"

definition two :: "char \<Rightarrow> char \<Rightarrow> nat" where
  "two a b = 10 * digit_val a + digit_val b"

text \<open>
  One function for each directive of the format, after the regular expression that
  \<^verbatim>\<open>_strptime\<close> compiles for it. Each returns the number read and the rest of the
  input, or \<open>None\<close> when no alternative matches. A two-character alternative is tried
  before the one-character alternative, as in the expression; every directive of this
  format is followed by a literal that is not a digit, so going back to the shorter
  alternative after the longer one has matched can never succeed, and the first match is
  the only one. Characters are bytes here, and the digits are the ten ASCII digits.
\<close>

text \<open>\<^verbatim>\<open>%Y: \d\d\d\d\<close>\<close>

fun dir_Y :: "string \<Rightarrow> (nat \<times> string) option" where
  "dir_Y (a # b # c # d # r) =
     (if is_digit a \<and> is_digit b \<and> is_digit c \<and> is_digit d
      then Some (100 * two a b + two c d, r) else None)"
| "dir_Y _ = None"

text \<open>\<^verbatim>\<open>%m: 1[0-2]|0[1-9]|[1-9]\<close>\<close>

fun dir_m :: "string \<Rightarrow> (nat \<times> string) option" where
  "dir_m (a # b # r) =
     (if a = CHR ''1'' \<and> in_range CHR ''0'' CHR ''2'' b then Some (two a b, r)
      else if a = CHR ''0'' \<and> in_range CHR ''1'' CHR ''9'' b then Some (two a b, r)
      else if in_range CHR ''1'' CHR ''9'' a then Some (digit_val a, b # r)
      else None)"
| "dir_m [a] = (if in_range CHR ''1'' CHR ''9'' a then Some (digit_val a, []) else None)"
| "dir_m [] = None"

text \<open>\<^verbatim>\<open>%d: 3[0-1]|[1-2]\d|0[1-9]|[1-9]| [1-9]\<close>\<close>

fun dir_d :: "string \<Rightarrow> (nat \<times> string) option" where
  "dir_d (a # b # r) =
     (if a = CHR ''3'' \<and> in_range CHR ''0'' CHR ''1'' b then Some (two a b, r)
      else if in_range CHR ''1'' CHR ''2'' a \<and> is_digit b then Some (two a b, r)
      else if a = CHR ''0'' \<and> in_range CHR ''1'' CHR ''9'' b then Some (two a b, r)
      else if in_range CHR ''1'' CHR ''9'' a then Some (digit_val a, b # r)
      else if a = CHR '' '' \<and> in_range CHR ''1'' CHR ''9'' b then Some (digit_val b, r)
      else None)"
| "dir_d [a] = (if in_range CHR ''1'' CHR ''9'' a then Some (digit_val a, []) else None)"
| "dir_d [] = None"

text \<open>\<^verbatim>\<open>%H: 2[0-3]|[0-1]\d|\d\<close>\<close>

fun dir_H :: "string \<Rightarrow> (nat \<times> string) option" where
  "dir_H (a # b # r) =
     (if a = CHR ''2'' \<and> in_range CHR ''0'' CHR ''3'' b then Some (two a b, r)
      else if in_range CHR ''0'' CHR ''1'' a \<and> is_digit b then Some (two a b, r)
      else if is_digit a then Some (digit_val a, b # r)
      else None)"
| "dir_H [a] = (if is_digit a then Some (digit_val a, []) else None)"
| "dir_H [] = None"

text \<open>\<^verbatim>\<open>%M: [0-5]\d|\d\<close>\<close>

fun dir_M :: "string \<Rightarrow> (nat \<times> string) option" where
  "dir_M (a # b # r) =
     (if in_range CHR ''0'' CHR ''5'' a \<and> is_digit b then Some (two a b, r)
      else if is_digit a then Some (digit_val a, b # r)
      else None)"
| "dir_M [a] = (if is_digit a then Some (digit_val a, []) else None)"
| "dir_M [] = None"

text \<open>\<^verbatim>\<open>%S: 6[0-1]|[0-5]\d|\d\<close>\<close>

fun dir_S :: "string \<Rightarrow> (nat \<times> string) option" where
  "dir_S (a # b # r) =
     (if a = CHR ''6'' \<and> in_range CHR ''0'' CHR ''1'' b then Some (two a b, r)
      else if in_range CHR ''0'' CHR ''5'' a \<and> is_digit b then Some (two a b, r)
      else if is_digit a then Some (digit_val a, b # r)
      else None)"
| "dir_S [a] = (if is_digit a then Some (digit_val a, []) else None)"
| "dir_S [] = None"

text \<open>
  A literal character of the format. The expression is compiled with
  \<^verbatim>\<open>IGNORECASE\<close>, so the letters \<^verbatim>\<open>T\<close> and \<^verbatim>\<open>Z\<close> match in either case.
\<close>

fun lit :: "char list \<Rightarrow> string \<Rightarrow> string option" where
  "lit cs (a # r) = (if a \<in> set cs then Some r else None)"
| "lit cs [] = None"

definition leap :: "nat \<Rightarrow> bool" where
  "leap y = (y mod 4 = 0 \<and> (y mod 100 \<noteq> 0 \<or> y mod 400 = 0))"

definition days_in_month :: "nat \<Rightarrow> nat \<Rightarrow> nat" where
  "days_in_month y m =
     (if m = 2 then (if leap y then 29 else 28)
      else if m \<in> {4, 6, 9, 11} then 30 else 31)"

text \<open>
  The match of the whole format against the whole string (data left over is an error as
  well), then the checks of the \<^verbatim>\<open>date\<close> and \<^verbatim>\<open>datetime\<close> constructors: year
  at least 1, the day within the month, second at most 59. Every failure is a
  \<^verbatim>\<open>ValueError\<close>. The result is \<^verbatim>\<open>.date()\<close> of the parsed instant: the time of
  day is read and dropped.
\<close>

definition then_lit :: "(nat \<times> string) option \<Rightarrow> char list \<Rightarrow> (nat \<times> string) option" where
  "then_lit p cs =
     (case p of None \<Rightarrow> None
      | Some (n, r) \<Rightarrow> (case lit cs r of None \<Rightarrow> None | Some r' \<Rightarrow> Some (n, r')))"

definition match_date :: "string \<Rightarrow> ((nat \<times> nat \<times> nat) \<times> string) option" where
  "match_date s =
     Option.bind (then_lit (dir_Y s) ''-'') (\<lambda>(y, s1).
     Option.bind (then_lit (dir_m s1) ''-'') (\<lambda>(m, s2).
     Option.bind (then_lit (dir_d s2) ''Tt'') (\<lambda>(d, s3).
     Some ((y, m, d), s3))))"

definition match_time :: "string \<Rightarrow> ((nat \<times> nat \<times> nat) \<times> string) option" where
  "match_time s =
     Option.bind (then_lit (dir_H s) '':'') (\<lambda>(H, s1).
     Option.bind (then_lit (dir_M s1) '':'') (\<lambda>(M, s2).
     Option.bind (then_lit (dir_S s2) ''Zz'') (\<lambda>(S, s3).
     Some ((H, M, S), s3))))"

definition strptime_date :: "string \<Rightarrow> error + date" where
  "strptime_date s =
     (case match_date s of None \<Rightarrow> Inl ValueError
      | Some ((y, m, d), s1) \<Rightarrow>
     (case match_time s1 of None \<Rightarrow> Inl ValueError
      | Some ((H, M, S), s2) \<Rightarrow>
        if s2 \<noteq> [] then Inl ValueError
        else if y < 1 \<or> days_in_month y m < d \<or> 59 < S then Inl ValueError
        else Inr \<lparr>year = y, month = m, day = d\<rparr>))"

text \<open>
  \<^verbatim>\<open>__format__date\<close>: a falsy argument gives \<^verbatim>\<open>None\<close>; anything else is turned
  into a string and parsed. \<^verbatim>\<open>str\<close> of a value that is not a string
  (\<^verbatim>\<open>True\<close>, a number in decimal, the display of a list or of a dict) never has
  the shape of the format, so a truthy argument of these kinds ends in the
  \<^verbatim>\<open>ValueError\<close> of the parser.
\<close>

fun format_date :: "json \<Rightarrow> error + date option" where
  "format_date JNull = Inr None"
| "format_date (JStr s) =
     (if s = [] then Inr None
      else (case strptime_date s of Inl e \<Rightarrow> Inl e | Inr d \<Rightarrow> Inr (Some d)))"
| "format_date (JBool b) = (if b then Inl ValueError else Inr None)"
| "format_date (JNum n) = (if n = 0 then Inr None else Inl ValueError)"
| "format_date (JArr xs) = (if xs = [] then Inr None else Inl ValueError)"
| "format_date (JObj kvs) = (if kvs = [] then Inr None else Inl ValueError)"

subsection \<open>The release table: the operations of \<^verbatim>\<open>datatable\<close> the module uses\<close>

text \<open>One row of the table: the \<^verbatim>\<open>dict\<close> built for each release at lines 105 to 113.\<close>

record release =
  id' :: json
  name :: json
  tag_name :: json
  created_at :: "date option"
  published_at :: "date option"
  tarball_url :: json
  zipball_url :: json

text \<open>
  The attribute \<^verbatim>\<open>self.releases\<close>: the empty Python list the constructor stores, or
  the \<^verbatim>\<open>Frame\<close> that \<^verbatim>\<open>listReleases\<close> stores, with its column names and its
  rows in order.
\<close>

datatype snapshot =
    EmptyList
  | Frame (names: "string list") (rows: "release list")

definition release_columns :: "string list" where
  "release_columns =
     [''id'', ''name'', ''tag_name'', ''created_at'', ''published_at'', ''tarball_url'',
      ''zipball_url'']"

text \<open>
  \<^verbatim>\<open>dt.Frame(releases)\<close> for a list of dicts: one row for each dict, one column for each
  key; an empty list gives the frame with no column and no row. The cells keep the values
  of the dicts; the types that \<^verbatim>\<open>datatable\<close> gives to columns are left out.
\<close>

definition dt_Frame :: "release list \<Rightarrow> snapshot" where
  "dt_Frame rs = (if rs = [] then Frame [] [] else Frame release_columns rs)"

text \<open>
  \<^verbatim>\<open>not self.releases\<close> is the negation of this. A list is true when it is not empty;
  a \<^verbatim>\<open>Frame\<close> has no \<^verbatim>\<open>__bool__\<close> and its \<^verbatim>\<open>__len__\<close> is the number of
  its columns, so it is true when it has a column.
\<close>

fun py_bool :: "snapshot \<Rightarrow> bool" where
  "py_bool EmptyList = False"
| "py_bool (Frame ns rs) = (ns \<noteq> [])"

text \<open>
  \<^verbatim>\<open>DT[:, ['id', 'name', 'tag_name', 'published_at']]\<close>: the four columns of every row;
  a name that is not a column of the frame is a \<^verbatim>\<open>KeyError\<close>. Indexing a Python list
  with a tuple is a \<^verbatim>\<open>TypeError\<close>.
\<close>

fun missing_column :: "string list \<Rightarrow> string list \<Rightarrow> string option" where
  "missing_column ns [] = None"
| "missing_column ns (k # ks) = (if k \<in> set ns then missing_column ns ks else Some k)"

fun select_overview :: "snapshot \<Rightarrow> error + (json \<times> json \<times> json \<times> date option) list" where
  "select_overview EmptyList = Inl TypeError"
| "select_overview (Frame ns rs) =
     (case missing_column ns [''id'', ''name'', ''tag_name'', ''published_at''] of
        Some k \<Rightarrow> Inl (KeyError k)
      | None \<Rightarrow> Inr (map (\<lambda>r. (id' r, name r, tag_name r, published_at r)) rs))"

text \<open>
  \<^verbatim>\<open>DT[0, ['tag_name']].to_dict()['tag_name'][0]\<close>: the \<^verbatim>\<open>tag_name\<close> of the first
  row. A frame with no such column or with no row raises.
\<close>

fun first_tag_name :: "snapshot \<Rightarrow> error + json" where
  "first_tag_name EmptyList = Inl TypeError"
| "first_tag_name (Frame ns rs) =
     (if ''tag_name'' \<notin> set ns then Inl (KeyError ''tag_name'')
      else (case rs of [] \<Rightarrow> Inl IndexError | r # _ \<Rightarrow> Inr (tag_name r)))"

text \<open>
  \<^verbatim>\<open>DT[f.tag_name == release, :].to_dict()['tarball_url'][0]\<close>: the rows whose
  \<^verbatim>\<open>tag_name\<close> is the given value, in the order of the frame, as a dict of columns; the
  column \<^verbatim>\<open>tarball_url\<close> of it as a list; the first element of the list, an
  \<^verbatim>\<open>IndexError\<close> when the list is empty.
\<close>

fun tarball_url_of :: "snapshot \<Rightarrow> json \<Rightarrow> error + json" where
  "tarball_url_of EmptyList release = Inl TypeError"
| "tarball_url_of (Frame ns rs) release =
     (if ''tag_name'' \<notin> set ns then Inl (KeyError ''tag_name'')
      else if ''tarball_url'' \<notin> set ns then Inl (KeyError ''tarball_url'')
      else (case filter (\<lambda>r. tag_name r = release) rs of
              [] \<Rightarrow> Inl IndexError
            | r # _ \<Rightarrow> Inr (tarball_url r)))"

subsection \<open>The network, the file system and the standard output\<close>

text \<open>
  A call of \<^verbatim>\<open>requests.get\<close>. \<open>req_params\<close> is its \<^verbatim>\<open>params\<close> argument, the
  query parameters of the URL; \<open>req_headers\<close> its \<^verbatim>\<open>headers\<close> argument, a dict in
  insertion order; \<open>req_stream\<close> its \<^verbatim>\<open>stream\<close> argument.
\<close>

record request =
  req_url :: string
  req_params :: "(string \<times> string) list"
  req_headers :: "(string \<times> string) list"
  req_stream :: bool

text \<open>
  What a response carries: JSON text, a gzip-compressed tar stream with its entries (path
  and content), or anything else. \<^verbatim>\<open>resp.json()\<close> decodes the first only, and
  \<^verbatim>\<open>tarfile.open(fileobj = resp.raw, mode = 'r|gz')\<close> reads the second only.
\<close>

datatype body =
    JsonBody json
  | TarGz "(string \<times> string) list"
  | OtherBody

record response =
  status_code :: nat
  content :: body

text \<open>\<^verbatim>\<open>requests.get\<close> returns a response or raises an exception of its own.\<close>

datatype outcome = Raises | Returns response

text \<open>The world outside the client: the network and the working directory.\<close>

record env =
  http_get :: "request \<Rightarrow> outcome"
  abspath :: "string \<Rightarrow> string"

text \<open>\<^verbatim>\<open>resp.raise_for_status()\<close> raises for the statuses 400 to 599 and for no other.\<close>

definition raise_for_status :: "response \<Rightarrow> error + unit" where
  "raise_for_status resp =
     (if 400 \<le> status_code resp \<and> status_code resp < 600
      then Inl (HTTPError (status_code resp)) else Inr ())"

definition resp_json :: "response \<Rightarrow> error + json" where
  "resp_json resp = (case content resp of JsonBody j \<Rightarrow> Inr j | _ \<Rightarrow> Inl JSONDecodeError)"

definition tarfile_open :: "response \<Rightarrow> error + (string \<times> string) list" where
  "tarfile_open resp = (case content resp of TarGz es \<Rightarrow> Inr es | _ \<Rightarrow> Inl ReadError)"

text \<open>What the module prints, and the trace a method leaves.\<close>

datatype printed =
    Found nat
  | Table "(json \<times> json \<times> json \<times> date option) list"
  | Downloading json json
  | Extracted string

datatype event =
    HttpGet request
  | ExtractAll string "(string \<times> string) list"
  | Stdout printed

subsection \<open>The client\<close>

record client =
  releases :: snapshot
  gh_host :: string
  gh_owner :: "string option"
  gh_repo :: "string option"
  gh_endpoint_release :: "string option"
  gh_default_header :: "(string \<times> string) list"

text \<open>\<^verbatim>\<open>'{}'.format(x)\<close> for a string or \<^verbatim>\<open>None\<close>.\<close>

fun format_str :: "string option \<Rightarrow> string" where
  "format_str None = ''None''"
| "format_str (Some s) = s"

definition build_release_url :: "client \<Rightarrow> client" where
  "build_release_url c =
     c\<lparr>gh_endpoint_release :=
         Some (gh_host c @ ''/repos/'' @ format_str (gh_owner c) @ ''/''
               @ format_str (gh_repo c) @ ''/releases'')\<rparr>"

definition init :: "string option \<Rightarrow> string option \<Rightarrow> client" where
  "init owner repo =
     build_release_url
       \<lparr>releases = EmptyList,
        gh_host = ''https://api.github.com'',
        gh_owner = owner,
        gh_repo = repo,
        gh_endpoint_release = None,
        gh_default_header = [(''Accept'', ''application/vnd.github.v3+json'')]\<rparr>"

definition print_releases :: "client \<Rightarrow> error + printed" where
  "print_releases c =
     (case select_overview (releases c) of Inl e \<Rightarrow> Inl e | Inr t \<Rightarrow> Inr (Table t))"

subsection \<open>\<^verbatim>\<open>listReleases\<close>\<close>

text \<open>
  The arguments \<^verbatim>\<open>per_page\<close> and \<^verbatim>\<open>page\<close> are an integer or \<^verbatim>\<open>None\<close>.
  \<^verbatim>\<open>if per_page:\<close> is false for \<^verbatim>\<open>None\<close> and for \<open>0\<close>; \<^verbatim>\<open>str\<close> writes
  an integer in decimal.
\<close>

fun py_truth :: "int option \<Rightarrow> bool" where
  "py_truth None = False"
| "py_truth (Some n) = (n \<noteq> 0)"

fun str_nat :: "nat \<Rightarrow> string" where
  "str_nat n = (if n < 10 then [digit_char n] else str_nat (n div 10) @ [digit_char (n mod 10)])"

declare str_nat.simps [simp del]

fun py_str :: "int option \<Rightarrow> string" where
  "py_str None = ''None''"
| "py_str (Some i) = (if i < 0 then CHR ''-'' # str_nat (nat (- i)) else str_nat (nat i))"

text \<open>
  Lines 92 to 94. \<^verbatim>\<open>headers\<close> is the dict \<^verbatim>\<open>self.gh_default_header\<close> itself, not
  a copy of it, so the two assignments write into the attribute of the client: the value
  this function returns is both the headers of the request and the attribute afterwards.
\<close>

definition paging_headers ::
  "(string \<times> string) list \<Rightarrow> int option \<Rightarrow> int option \<Rightarrow> (string \<times> string) list" where
  "paging_headers headers per_page page =
     (let h1 = (if py_truth per_page then AList.update ''per_page'' (py_str per_page) headers
                else headers)
      in if py_truth page then AList.update ''page'' (py_str page) h1 else h1)"

text \<open>\<^verbatim>\<open>d.get(k, None)\<close> on a dict.\<close>

definition py_get :: "(string \<times> json) list \<Rightarrow> string \<Rightarrow> json" where
  "py_get d k = (case map_of d k of None \<Rightarrow> JNull | Some v \<Rightarrow> v)"

text \<open>
  The dict of lines 105 to 113 for one element of the response. Only a dict has the method
  \<^verbatim>\<open>get\<close>; the two dates are formatted in the order of the keys.
\<close>

fun release_row :: "json \<Rightarrow> error + release" where
  "release_row (JObj d) =
     (case format_date (py_get d ''created_at'') of Inl e \<Rightarrow> Inl e | Inr c \<Rightarrow>
     (case format_date (py_get d ''published_at'') of Inl e \<Rightarrow> Inl e | Inr p \<Rightarrow>
        Inr \<lparr>id' = py_get d ''id'',
             name = py_get d ''name'',
             tag_name = py_get d ''tag_name'',
             created_at = c,
             published_at = p,
             tarball_url = py_get d ''tarball_url'',
             zipball_url = py_get d ''zipball_url''\<rparr>))"
| "release_row _ = Inl AttributeError"

text \<open>
  \<^verbatim>\<open>for d in data\<close>: the elements of a list, the keys of a dict, the characters of a
  string; nothing else can be iterated.
\<close>

fun py_iter :: "json \<Rightarrow> error + json list" where
  "py_iter (JArr xs) = Inr xs"
| "py_iter (JObj kvs) = Inr (map (\<lambda>kv. JStr (fst kv)) kvs)"
| "py_iter (JStr s) = Inr (map (\<lambda>c. JStr [c]) s)"
| "py_iter _ = Inl TypeError"

text \<open>The loop of lines 104 to 113: it stops at the first element that raises.\<close>

fun build_rows :: "json list \<Rightarrow> error + release list" where
  "build_rows [] = Inr []"
| "build_rows (d # ds) =
     (case release_row d of Inl e \<Rightarrow> Inl e | Inr r \<Rightarrow>
     (case build_rows ds of Inl e \<Rightarrow> Inl e | Inr rs \<Rightarrow> Inr (r # rs)))"

text \<open>
  \<^verbatim>\<open>[d['id'] for d in data]\<close> at line 114: subscription, not \<^verbatim>\<open>get\<close>, so a dict
  without the key \<^verbatim>\<open>id\<close> is a \<^verbatim>\<open>KeyError\<close>.
\<close>

fun id_list :: "json list \<Rightarrow> error + json list" where
  "id_list [] = Inr []"
| "id_list (JObj d # ds) =
     (case map_of d ''id'' of None \<Rightarrow> Inl (KeyError ''id'') | Some v \<Rightarrow>
     (case id_list ds of Inl e \<Rightarrow> Inl e | Inr vs \<Rightarrow> Inr (v # vs)))"
| "id_list (_ # ds) = Inl TypeError"

text \<open>Lines 103 to 114: the rows, and the number that is printed.\<close>

definition parse_listing :: "json \<Rightarrow> error + release list \<times> nat" where
  "parse_listing data =
     (case py_iter data of Inl e \<Rightarrow> Inl e | Inr ds \<Rightarrow>
     (case build_rows ds of Inl e \<Rightarrow> Inl e | Inr rs \<Rightarrow>
     (case id_list ds of Inl e \<Rightarrow> Inl e | Inr ids \<Rightarrow> Inr (rs, length ids))))"

text \<open>
  Lines 92 to 115, the body of \<^verbatim>\<open>if not self.releases\<close>. Only an
  \<^verbatim>\<open>HTTPError\<close> is caught and wrapped in a \<^verbatim>\<open>SystemError\<close>; an exception of
  \<^verbatim>\<open>requests.get\<close> itself passes through. \<^verbatim>\<open>requests.get\<close> is called with
  \<^verbatim>\<open>url\<close> and \<^verbatim>\<open>headers\<close> only. \<^verbatim>\<open>self.releases\<close> is assigned last.
\<close>

definition fetch_releases ::
  "env \<Rightarrow> client \<Rightarrow> int option \<Rightarrow> int option \<Rightarrow> (error + unit) \<times> client \<times> event list" where
  "fetch_releases e c per_page page =
     (let headers = paging_headers (gh_default_header c) per_page page;
          c1 = c\<lparr>gh_default_header := headers\<rparr>
      in case gh_endpoint_release c of
           None \<Rightarrow> (Inl RequestException, c1, [])
         | Some u \<Rightarrow>
             (let req = \<lparr>req_url = u, req_params = [], req_headers = headers,
                        req_stream = False\<rparr>
              in case http_get e req of
                   Raises \<Rightarrow> (Inl RequestException, c1, [HttpGet req])
                 | Returns resp \<Rightarrow>
                     (case raise_for_status resp of
                        Inl x \<Rightarrow> (Inl (SystemError x), c1, [HttpGet req])
                      | Inr _ \<Rightarrow>
                     (case resp_json resp of
                        Inl x \<Rightarrow> (Inl x, c1, [HttpGet req])
                      | Inr data \<Rightarrow>
                     (case parse_listing data of
                        Inl x \<Rightarrow> (Inl x, c1, [HttpGet req])
                      | Inr (rs, n) \<Rightarrow>
                          (Inr (), c1\<lparr>releases := dt_Frame rs\<rparr>,
                           [HttpGet req, Stdout (Found n)]))))))"

text \<open>The method: the fetch when the snapshot is false, then the table in both cases.\<close>

definition listReleases ::
  "env \<Rightarrow> client \<Rightarrow> int option \<Rightarrow> int option \<Rightarrow> (error + unit) \<times> client \<times> event list" where
  "listReleases e c per_page page =
     (case (if \<not> py_bool (releases c) then fetch_releases e c per_page page
            else (Inr (), c, [])) of
        (Inl x, c1, evs) \<Rightarrow> (Inl x, c1, evs)
      | (Inr _, c1, evs) \<Rightarrow>
          (case print_releases c1 of
             Inl x \<Rightarrow> (Inl x, c1, evs)
           | Inr t \<Rightarrow> (Inr (), c1, evs @ [Stdout t])))"

subsection \<open>\<^verbatim>\<open>downloadRelease\<close>\<close>

text \<open>Lines 132 to 134: the tag that is looked up.\<close>

definition resolve_release :: "client \<Rightarrow> string \<Rightarrow> error + json" where
  "resolve_release c tagName =
     (if tagName = ''latest'' then first_tag_name (releases c) else Inr (JStr tagName))"

text \<open>
  Lines 139 to 145. Only a string is a URL: \<^verbatim>\<open>requests.get\<close> refuses anything else
  before it sends a request. The archive is opened and extracted first, and
  \<^verbatim>\<open>raise_for_status\<close> is called after \<^verbatim>\<open>extractall\<close> has returned; an
  exception of \<^verbatim>\<open>tarfile\<close> is not caught.
\<close>

definition download ::
  "env \<Rightarrow> client \<Rightarrow> string \<Rightarrow> json \<Rightarrow> (error + unit) \<times> event list" where
  "download e c dir url =
     (case url of
        JStr u \<Rightarrow>
          (let req = \<lparr>req_url = u, req_params = [], req_headers = gh_default_header c,
                     req_stream = True\<rparr>
           in case http_get e req of
                Raises \<Rightarrow> (Inl RequestException, [HttpGet req])
              | Returns resp \<Rightarrow>
                  (case tarfile_open resp of
                     Inl x \<Rightarrow> (Inl x, [HttpGet req])
                   | Inr entries \<Rightarrow>
                  (case raise_for_status resp of
                     Inl x \<Rightarrow> (Inl (SystemError x), [HttpGet req, ExtractAll dir entries])
                   | Inr _ \<Rightarrow>
                       (Inr (), [HttpGet req, ExtractAll dir entries, Stdout (Extracted dir)]))))
      | _ \<Rightarrow> (Inl RequestException, []))"

definition downloadRelease ::
  "env \<Rightarrow> client \<Rightarrow> string \<Rightarrow> string \<Rightarrow> (error + unit) \<times> client \<times> event list" where
  "downloadRelease e c outDir tagName =
     (let dir = abspath e outDir
      in case resolve_release c tagName of
           Inl x \<Rightarrow> (Inl x, c, [])
         | Inr release \<Rightarrow>
        (case tarball_url_of (releases c) release of
           Inl x \<Rightarrow> (Inl x, c, [])
         | Inr url \<Rightarrow>
             (case download e c dir url of
                (r, evs) \<Rightarrow> (r, c, Stdout (Downloading release url) # evs))))"

subsection \<open>A sequence of calls on one client\<close>

datatype call =
    ListReleases "int option" "int option"
  | DownloadRelease string string

fun exec :: "env \<Rightarrow> client \<Rightarrow> call \<Rightarrow> (error + unit) \<times> client \<times> event list" where
  "exec e c (ListReleases per_page page) = listReleases e c per_page page"
| "exec e c (DownloadRelease outDir tagName) = downloadRelease e c outDir tagName"

text \<open>
  The caller makes the calls one after the other, each in the world of its moment, and
  goes on after an exception. The log keeps, for each call, its result and its trace.
\<close>

fun run ::
  "client \<Rightarrow> (env \<times> call) list \<Rightarrow> client \<times> (call \<times> (error + unit) \<times> event list) list" where
  "run c [] = (c, [])"
| "run c ((e, k) # ks) =
     (case exec e c k of
        (r, c1, evs) \<Rightarrow> (case run c1 ks of (c2, log) \<Rightarrow> (c2, (k, r, evs) # log)))"

text \<open>The requests in a trace.\<close>

fun requests_of :: "event list \<Rightarrow> request list" where
  "requests_of [] = []"
| "requests_of (HttpGet r # evs) = r # requests_of evs"
| "requests_of (_ # evs) = requests_of evs"

subsection \<open>Timestamps as the remote API writes them\<close>






text \<open>The request of line 97, for a client whose endpoint is \<open>u\<close>.\<close>

definition listing_request :: "client \<Rightarrow> int option \<Rightarrow> int option \<Rightarrow> string \<Rightarrow> request" where
  "listing_request c per_page page u =
     \<lparr>req_url = u, req_params = [],
      req_headers = paging_headers (gh_default_header c) per_page page, req_stream = False\<rparr>"

subsection \<open>Words of the specification\<close>

text \<open>The call signals the wrapped transport error: it ends in a \<^verbatim>\<open>SystemError\<close>.\<close>

fun raises_SystemError :: "(error + unit) \<Rightarrow> bool" where
  "raises_SystemError (Inl (SystemError x)) = True"
| "raises_SystemError _ = False"

text \<open>
  A request that fails in a way the module handles or lets through: \<^verbatim>\<open>requests.get\<close>
  raises, or the response has a status for which \<^verbatim>\<open>raise_for_status\<close> raises.
\<close>

fun failed :: "outcome \<Rightarrow> bool" where
  "failed Raises = True"
| "failed (Returns resp) = (400 \<le> status_code resp \<and> status_code resp < 600)"


subsection \<open>Example values\<close>

text \<open>
  A release object with a creation timestamp and no publication timestamp; three rows, the
  first of them the oldest and the last with the tag of the first; a client whose snapshot
  holds the three rows; and a world with no network.
\<close>

definition example_object :: "(string \<times> json) list" where
  "example_object =
     [(''id'', JNum 7), (''tag_name'', JStr ''v1.0''),
      (''created_at'', JStr ''2021-09-10T14:23:00Z''),
      (''tarball_url'', JStr ''https://api.github.com/repos/o/r/tarball/v1.0'')]"

definition row_old :: release where
  "row_old =
     \<lparr>id' = JNum 1, name = JStr ''first'', tag_name = JStr ''v1.0'',
      created_at = Some \<lparr>year = 2020, month = 1, day = 2\<rparr>,
      published_at = Some \<lparr>year = 2020, month = 1, day = 3\<rparr>,
      tarball_url = JStr ''https://api.github.com/repos/o/r/tarball/v1.0'',
      zipball_url = JStr ''https://api.github.com/repos/o/r/zipball/v1.0''\<rparr>"

definition row_new :: release where
  "row_new =
     \<lparr>id' = JNum 2, name = JStr ''second'', tag_name = JStr ''v2.0'',
      created_at = Some \<lparr>year = 2021, month = 9, day = 10\<rparr>,
      published_at = Some \<lparr>year = 2021, month = 9, day = 11\<rparr>,
      tarball_url = JStr ''https://api.github.com/repos/o/r/tarball/v2.0'',
      zipball_url = JStr ''https://api.github.com/repos/o/r/zipball/v2.0''\<rparr>"

definition row_dup :: release where
  "row_dup =
     \<lparr>id' = JNum 3, name = JStr ''third'', tag_name = JStr ''v1.0'',
      created_at = Some \<lparr>year = 2022, month = 5, day = 6\<rparr>,
      published_at = Some \<lparr>year = 2022, month = 5, day = 7\<rparr>,
      tarball_url = JStr ''https://api.github.com/repos/o/r/tarball/other'',
      zipball_url = JStr ''https://api.github.com/repos/o/r/zipball/other''\<rparr>"

definition example_client :: client where
  "example_client =
     (init (Some ''o'') (Some ''r''))\<lparr>releases := dt_Frame [row_old, row_new, row_dup]\<rparr>"

definition offline :: env where
  "offline = \<lparr>http_get = (\<lambda>req. Raises), abspath = (\<lambda>p. ''/home/user/'' @ p)\<rparr>"

text \<open>
  A client as the constructor leaves it, a world in which every request gets the same
  response, and some responses: the platform's answer for a repository it does not know,
  the same status with an archive as its body, a listing with no release, a listing with
  one release under a status of the 300s, under the status 200, and a listing whose one
  release has no \<^verbatim>\<open>id\<close>.
\<close>

definition fresh :: client where
  "fresh = init (Some ''o'') (Some ''r'')"

definition answering :: "response \<Rightarrow> env" where
  "answering resp = \<lparr>http_get = (\<lambda>req. Returns resp), abspath = (\<lambda>p. ''/home/user/'' @ p)\<rparr>"

definition not_found :: response where
  "not_found =
     \<lparr>status_code = 404, content = JsonBody (JObj [(''message'', JStr ''Not Found'')])\<rparr>"

definition not_found_archive :: response where
  "not_found_archive = \<lparr>status_code = 404, content = TarGz [(''a.txt'', ''a'')]\<rparr>"

definition no_releases :: response where
  "no_releases = \<lparr>status_code = 200, content = JsonBody (JArr [])\<rparr>"

definition multiple_choices :: response where
  "multiple_choices = \<lparr>status_code = 300, content = JsonBody (JArr [JObj example_object])\<rparr>"


definition no_id :: response where
  "no_id =
     \<lparr>status_code = 200, content = JsonBody (JArr [JObj [(''tag_name'', JStr ''v1.0'')]])\<rparr>"

section \<open>Properties\<close>

subsection \<open>Digits and directives\<close>















subsection \<open>The dates of a record\<close>



subsection \<open>The snapshot is read, not fetched again\<close>

lemma listReleases_hit:
  "py_bool (releases c) \<Longrightarrow>
   listReleases e c per_page page =
     (case print_releases c of Inl x \<Rightarrow> (Inl x, c, []) | Inr t \<Rightarrow> (Inr (), c, [Stdout t]))"
  by (simp add: listReleases_def split: sum.splits)

lemma listReleases_hit_client:
  "py_bool (releases c) \<Longrightarrow> fst (snd (listReleases e c per_page page)) = c"
  by (simp add: listReleases_hit split: sum.splits)

lemma listReleases_hit_requests:
  "py_bool (releases c) \<Longrightarrow> requests_of (snd (snd (listReleases e c per_page page))) = []"
  by (simp add: listReleases_hit split: sum.splits)

lemma downloadRelease_client: "fst (snd (downloadRelease e c outDir tagName)) = c"
  by (simp add: downloadRelease_def Let_def split: sum.splits prod.splits)

lemma exec_populated_client: "py_bool (releases c) \<Longrightarrow> fst (snd (exec e c k)) = c"
  by (cases k) (simp_all add: listReleases_hit_client downloadRelease_client)

lemma run_populated:
  "py_bool (releases c) \<Longrightarrow>
   fst (run c ks) = c \<and>
   (\<forall>per_page page r evs.
      (ListReleases per_page page, r, evs) \<in> set (snd (run c ks)) \<longrightarrow> requests_of evs = [])"
proof (induction ks)
  case Nil
  then show ?case by simp
next
  case (Cons ek ks)
  obtain e k where ek: "ek = (e, k)" by (cases ek)
  obtain r c1 evs where ex: "exec e c k = (r, c1, evs)" by (cases "exec e c k")
  from Cons.prems have c1: "c1 = c" using exec_populated_client [of c e k] ex by simp
  obtain c2 log where rn: "run c ks = (c2, log)" by (cases "run c ks")
  have step: "\<And>per_page page. k = ListReleases per_page page \<Longrightarrow> requests_of evs = []"
  proof -
    fix per_page page
    assume "k = ListReleases per_page page"
    then have "listReleases e c per_page page = (r, c1, evs)" using ex by simp
    then show "requests_of evs = []"
      using listReleases_hit_requests [OF Cons.prems, of e per_page page] by simp
  qed
  from Cons.IH [OF Cons.prems] rn have ih: "c2 = c"
    "\<And>per_page page r evs.
       (ListReleases per_page page, r, evs) \<in> set log \<Longrightarrow> requests_of evs = []"
    by auto
  show ?case using ek ex c1 rn ih step by auto
qed

text \<open>
  C1. On a client whose snapshot is populated, a call of \<^verbatim>\<open>listReleases\<close> sends no
  request and leaves the client, and so the snapshot, as it was, whatever the values of
  \<^verbatim>\<open>per_page\<close> and \<^verbatim>\<open>page\<close> and whatever the network would answer. And in every
  sequence of calls of the two methods that follows, the client stays the same to the end
  and no call of \<^verbatim>\<open>listReleases\<close> sends a request: the snapshot is not fetched again
  and not changed.
\<close>

theorem populated_snapshot_is_kept:
  "py_bool (releases c) \<Longrightarrow>
   (\<forall>e per_page page.
      fst (snd (listReleases e c per_page page)) = c \<and>
      requests_of (snd (snd (listReleases e c per_page page))) = []) \<and>
   (\<forall>ks. fst (run c ks) = c \<and>
      (\<forall>per_page page r evs.
         (ListReleases per_page page, r, evs) \<in> set (snd (run c ks)) \<longrightarrow>
         requests_of evs = []))"
  using listReleases_hit_client listReleases_hit_requests run_populated by blast

theorem populated_snapshot_is_kept_witness:
  "py_bool (releases example_client) \<and>
   fst (snd (listReleases offline example_client (Some 5) (Some 2))) = example_client \<and>
   requests_of (snd (snd (listReleases offline example_client (Some 5) (Some 2)))) = [] \<and>
   fst (run example_client
          [(offline, DownloadRelease ''out'' ''latest''),
           (offline, ListReleases (Some 5) (Some 2))]) = example_client \<and>
   fst (snd (run example_client
          [(offline, DownloadRelease ''out'' ''latest''),
           (offline, ListReleases (Some 5) (Some 2))]) ! 1) = ListReleases (Some 5) (Some 2) \<and>
   requests_of (snd (snd (snd (run example_client
          [(offline, DownloadRelease ''out'' ''latest''),
           (offline, ListReleases (Some 5) (Some 2))]) ! 1))) = []"
proof -
  let ?ks = "[(offline, DownloadRelease ''out'' ''latest''),
              (offline, ListReleases (Some 5) (Some 2))]"
  have h: "py_bool (releases example_client)"
    by (simp add: example_client_def dt_Frame_def release_columns_def)
  note t = populated_snapshot_is_kept [OF h]
  obtain k r evs where l: "snd (run example_client ?ks) ! 1 = (k, r, evs)"
    by (cases "snd (run example_client ?ks) ! 1")
  have len: "length (snd (run example_client ?ks)) = 2"
    by (simp split: prod.splits)
  have k: "fst (snd (run example_client ?ks) ! 1) = ListReleases (Some 5) (Some 2)"
    by (simp split: prod.splits)
  from len have "snd (run example_client ?ks) ! 1 \<in> set (snd (run example_client ?ks))"
    by (intro nth_mem) simp
  with l k have "(ListReleases (Some 5) (Some 2), r, evs) \<in> set (snd (run example_client ?ks))"
    by simp
  with t have "requests_of evs = []" by blast
  with l have a4: "requests_of (snd (snd (snd (run example_client ?ks) ! 1))) = []" by simp
  from t have a1: "fst (snd (listReleases offline example_client (Some 5) (Some 2))) =
                     example_client"
    and a2: "requests_of (snd (snd (listReleases offline example_client (Some 5) (Some 2)))) = []"
    and a3: "fst (run example_client ?ks) = example_client"
    by blast+
  show ?thesis
    using h a1 a2 a3 k a4 by (intro conjI)
qed

subsection \<open>What a fetch changes and sends\<close>


lemma fetch_endpoint:
  "gh_endpoint_release (fst (snd (fetch_releases e c per_page page))) = gh_endpoint_release c"
  by (simp add: fetch_releases_def Let_def
      split: option.splits outcome.splits sum.splits prod.splits)

lemma fetch_requests:
  "gh_endpoint_release c = Some u \<Longrightarrow>
   requests_of (snd (snd (fetch_releases e c per_page page))) = [listing_request c per_page page u]"
  by (simp add: fetch_releases_def Let_def listing_request_def
      split: option.splits outcome.splits sum.splits prod.splits)


lemma listReleases_client:
  "fst (snd (listReleases e c per_page page)) =
     (if py_bool (releases c) then c else fst (snd (fetch_releases e c per_page page)))"
  by (simp add: listReleases_def split: sum.splits prod.splits)

lemma requests_of_append: "requests_of (xs @ ys) = requests_of xs @ requests_of ys"
  by (induction xs rule: requests_of.induct) simp_all

lemma listReleases_requests:
  "requests_of (snd (snd (listReleases e c per_page page))) =
     (if py_bool (releases c) then []
      else requests_of (snd (snd (fetch_releases e c per_page page))))"
  by (auto simp add: listReleases_def requests_of_append split: sum.splits prod.splits)

subsection \<open>Resolving and looking up a tag\<close>

lemma resolve_latest:
  "releases c = Frame release_columns (r0 # rs) \<Longrightarrow> resolve_release c ''latest'' = Inr (tag_name r0)"
  by (simp add: resolve_release_def release_columns_def)

lemma resolve_verbatim:
  "tagName \<noteq> ''latest'' \<Longrightarrow> resolve_release c tagName = Inr (JStr tagName)"
  by (simp add: resolve_release_def)

lemma downloadRelease_found:
  assumes "releases c = Frame release_columns rs"
    and "resolve_release c tagName = Inr t"
    and "List.find (\<lambda>r. tag_name r = t) rs = Some r"
  shows "downloadRelease e c outDir tagName =
           (fst (download e c (abspath e outDir) (tarball_url r)), c,
            Stdout (Downloading t (tarball_url r))
              # snd (download e c (abspath e outDir) (tarball_url r)))"
proof -
  from assms(3) obtain rest where "filter (\<lambda>r. tag_name r = t) rs = r # rest"
    by (induction rs) (auto split: if_splits)
  with assms(1,2) show ?thesis
    by (simp add: downloadRelease_def release_columns_def split: prod.splits)
qed

lemma downloadRelease_miss:
  assumes "releases c = dt_Frame rs"
    and "resolve_release c tagName = Inr t"
    and "filter (\<lambda>r. tag_name r = t) rs = []"
  shows "downloadRelease e c outDir tagName =
           (Inl (if rs = [] then KeyError ''tag_name'' else IndexError), c, [])"
  using assms by (simp add: downloadRelease_def dt_Frame_def release_columns_def)

lemma download_requests:
  "requests_of (snd (download e c dir url)) =
     (case url of
        JStr u \<Rightarrow> [\<lparr>req_url = u, req_params = [], req_headers = gh_default_header c,
                    req_stream = True\<rparr>]
      | _ \<Rightarrow> [])"
  by (simp add: download_def Let_def split: json.splits outcome.splits sum.splits)

text \<open>
  C2. On a snapshot that \<^verbatim>\<open>listReleases\<close> stored with at least one record,
  \<^verbatim>\<open>downloadRelease\<close> with the tag \<^verbatim>\<open>latest\<close> resolves to the \<^verbatim>\<open>tag_name\<close>
  of the record at index 0 and goes on with the archive of that record; the dates play no
  part, since the same holds after any change of the records that keeps their tag names.
  Any other tag is used as it is.
\<close>

theorem latest_is_first_record:
  assumes "releases c = dt_Frame (r0 # rs)"
  shows "resolve_release c ''latest'' = Inr (tag_name r0) \<and>
         (\<forall>f. (\<forall>r. tag_name (f r) = tag_name r) \<longrightarrow>
              resolve_release (c\<lparr>releases := dt_Frame (map f (r0 # rs))\<rparr>) ''latest''
                = Inr (tag_name r0)) \<and>
         (\<forall>tagName. tagName \<noteq> ''latest'' \<longrightarrow> resolve_release c tagName = Inr (JStr tagName)) \<and>
         (\<forall>e outDir. \<exists>res evs.
              downloadRelease e c outDir ''latest'' =
                (res, c, Stdout (Downloading (tag_name r0) (tarball_url r0)) # evs))"
proof -
  from assms have fr: "releases c = Frame release_columns (r0 # rs)"
    by (simp add: dt_Frame_def)
  have a: "resolve_release c ''latest'' = Inr (tag_name r0)"
    using fr by (rule resolve_latest)
  have b: "resolve_release (c\<lparr>releases := dt_Frame (map f (r0 # rs))\<rparr>) ''latest''
             = Inr (tag_name r0)" if "\<forall>r. tag_name (f r) = tag_name r" for f
    using that by (simp add: resolve_release_def dt_Frame_def release_columns_def)
  have d: "\<exists>res evs. downloadRelease e c outDir ''latest'' =
             (res, c, Stdout (Downloading (tag_name r0) (tarball_url r0)) # evs)" for e outDir
    using downloadRelease_found [OF fr a, of r0 e outDir] by simp
  from a b d show ?thesis by (simp add: resolve_verbatim)
qed

theorem latest_is_first_record_witness:
  "releases example_client = dt_Frame (row_old # [row_new, row_dup]) \<and>
   resolve_release example_client ''latest'' = Inr (JStr ''v1.0'') \<and>
   resolve_release example_client ''v2.0'' = Inr (JStr ''v2.0'')"
proof -
  have h: "releases example_client = dt_Frame (row_old # [row_new, row_dup])"
    by (simp add: example_client_def)
  from latest_is_first_record [OF h] h show ?thesis
    by (simp add: row_old_def)
qed

text \<open>
  C6. On a snapshot that \<^verbatim>\<open>listReleases\<close> stored, for the tag that
  \<^verbatim>\<open>downloadRelease\<close> resolved: when no record has that \<^verbatim>\<open>tag_name\<close> the call
  raises (an \<^verbatim>\<open>IndexError\<close> when the snapshot has records) and has printed and
  requested nothing; when records have it, the first of them in the order of the snapshot
  is taken, and the request, if one is sent, goes to the \<^verbatim>\<open>tarball_url\<close> of that
  record.
\<close>

theorem lookup_fails_or_takes_first_match:
  assumes "releases c = dt_Frame rs"
    and "resolve_release c tagName = Inr t"
  shows "((\<forall>r \<in> set rs. tag_name r \<noteq> t) \<longrightarrow>
            downloadRelease e c outDir tagName =
              (Inl (if rs = [] then KeyError ''tag_name'' else IndexError), c, [])) \<and>
         (\<forall>r. List.find (\<lambda>r. tag_name r = t) rs = Some r \<longrightarrow>
            (\<exists>res evs.
               downloadRelease e c outDir tagName =
                 (res, c, Stdout (Downloading t (tarball_url r)) # evs) \<and>
               requests_of evs =
                 (case tarball_url r of
                    JStr u \<Rightarrow> [\<lparr>req_url = u, req_params = [],
                                req_headers = gh_default_header c, req_stream = True\<rparr>]
                  | _ \<Rightarrow> [])))"
proof -
  have miss: "downloadRelease e c outDir tagName =
               (Inl (if rs = [] then KeyError ''tag_name'' else IndexError), c, [])"
    if "\<forall>r \<in> set rs. tag_name r \<noteq> t"
  proof -
    from that have "filter (\<lambda>r. tag_name r = t) rs = []" by (simp add: filter_empty_conv)
    with assms show ?thesis by (rule downloadRelease_miss)
  qed
  have hit: "\<exists>res evs.
               downloadRelease e c outDir tagName =
                 (res, c, Stdout (Downloading t (tarball_url r)) # evs) \<and>
               requests_of evs =
                 (case tarball_url r of
                    JStr u \<Rightarrow> [\<lparr>req_url = u, req_params = [],
                                req_headers = gh_default_header c, req_stream = True\<rparr>]
                  | _ \<Rightarrow> [])"
    if f: "List.find (\<lambda>r. tag_name r = t) rs = Some r" for r
  proof -
    from f have "rs \<noteq> []" by auto
    with assms(1) have fr: "releases c = Frame release_columns rs" by (simp add: dt_Frame_def)
    from downloadRelease_found [OF fr assms(2) f] download_requests show ?thesis by simp
  qed
  from miss hit show ?thesis by blast
qed

theorem lookup_fails_or_takes_first_match_witness:
  "releases example_client = dt_Frame [row_old, row_new, row_dup] \<and>
   resolve_release example_client ''v9'' = Inr (JStr ''v9'') \<and>
   tag_name row_old \<noteq> JStr ''v9'' \<and> tag_name row_new \<noteq> JStr ''v9'' \<and>
   tag_name row_dup \<noteq> JStr ''v9'' \<and>
   downloadRelease offline example_client ''out'' ''v9'' = (Inl IndexError, example_client, []) \<and>
   resolve_release example_client ''v1.0'' = Inr (JStr ''v1.0'') \<and>
   List.find (\<lambda>r. tag_name r = JStr ''v1.0'') [row_old, row_new, row_dup] = Some row_old \<and>
   (\<exists>res evs.
      downloadRelease offline example_client ''out'' ''v1.0'' =
        (res, example_client, Stdout (Downloading (JStr ''v1.0'') (tarball_url row_old)) # evs) \<and>
      requests_of evs =
        [\<lparr>req_url = ''https://api.github.com/repos/o/r/tarball/v1.0'', req_params = [],
          req_headers = gh_default_header example_client, req_stream = True\<rparr>])"
proof -
  have h: "releases example_client = dt_Frame [row_old, row_new, row_dup]"
    by (simp add: example_client_def)
  have r9: "resolve_release example_client ''v9'' = Inr (JStr ''v9'')"
    by (simp add: resolve_release_def)
  have r1: "resolve_release example_client ''v1.0'' = Inr (JStr ''v1.0'')"
    by (simp add: resolve_release_def)
  have n9: "\<forall>r \<in> set [row_old, row_new, row_dup]. tag_name r \<noteq> JStr ''v9''"
    by (simp add: row_old_def row_new_def row_dup_def)
  have f1: "List.find (\<lambda>r. tag_name r = JStr ''v1.0'') [row_old, row_new, row_dup] = Some row_old"
    by (simp add: row_old_def)
  have u: "tarball_url row_old = JStr ''https://api.github.com/repos/o/r/tarball/v1.0''"
    by (simp add: row_old_def)
  from lookup_fails_or_takes_first_match [OF h r9, of offline "''out''"] n9
  have m: "downloadRelease offline example_client ''out'' ''v9'' =
             (Inl IndexError, example_client, [])"
    by simp
  from lookup_fails_or_takes_first_match [OF h r1, of offline "''out''"] f1 u
  have t: "\<exists>res evs.
      downloadRelease offline example_client ''out'' ''v1.0'' =
        (res, example_client, Stdout (Downloading (JStr ''v1.0'') (tarball_url row_old)) # evs) \<and>
      requests_of evs =
        [\<lparr>req_url = ''https://api.github.com/repos/o/r/tarball/v1.0'', req_params = [],
          req_headers = gh_default_header example_client, req_stream = True\<rparr>]"
    by simp
  from h r9 n9 m r1 f1 t show ?thesis by simp
qed

subsection \<open>A listing that fails\<close>

lemma fetch_releases_kept_on_failure:
  assumes "gh_endpoint_release c = Some u"
    and "failed (http_get e (listing_request c per_page page u))"
  shows "fetch_releases e c per_page page =
           ((case http_get e (listing_request c per_page page u) of
               Raises \<Rightarrow> Inl RequestException
             | Returns resp \<Rightarrow> Inl (SystemError (HTTPError (status_code resp)))),
            c\<lparr>gh_default_header := paging_headers (gh_default_header c) per_page page\<rparr>,
            [HttpGet (listing_request c per_page page u)])"
  using assms
  by (cases "http_get e (listing_request c per_page page u)")
     (simp_all add: fetch_releases_def Let_def listing_request_def raise_for_status_def)

lemma listReleases_miss_requests:
  assumes "\<not> py_bool (releases c)" and "gh_endpoint_release c = Some u"
  shows "requests_of (snd (snd (listReleases e c per_page page))) =
           [listing_request c per_page page u]"
  using assms by (simp add: listReleases_requests fetch_requests)

text \<open>
  C5, as stated, fails. With no network, \<^verbatim>\<open>requests.get\<close> raises an exception of
  its own, which is not an \<^verbatim>\<open>HTTPError\<close>: the \<^verbatim>\<open>except\<close> clause of line 99
  does not catch it and no \<^verbatim>\<open>SystemError\<close> is raised. And a status outside 200 to
  299 for which \<^verbatim>\<open>raise_for_status\<close> does not raise, here 300, is no failure for the
  method: the listing in the body is stored.
\<close>

theorem failed_listing_counterexample:
  "\<not> raises_SystemError (fst (listReleases offline fresh (Some 30) (Some 1))) \<and>
   fst (listReleases (answering multiple_choices) fresh (Some 30) (Some 1)) = Inr () \<and>
   py_bool (releases (fst (snd (listReleases (answering multiple_choices) fresh
                                  (Some 30) (Some 1)))))"
  by code_simp

text \<open>
  C5, amended. On a client with an empty snapshot, when the listing request is answered
  with a status from 400 to 599 the call raises a \<^verbatim>\<open>SystemError\<close> that wraps the
  \<^verbatim>\<open>HTTPError\<close> of that status, and when \<^verbatim>\<open>requests.get\<close> itself raises, its
  exception passes through unwrapped. In both cases the snapshot is left as it was, and a
  following call of \<^verbatim>\<open>listReleases\<close> sends the listing request again.
\<close>

theorem failed_listing_stores_nothing:
  assumes "\<not> py_bool (releases c)"
    and "gh_endpoint_release c = Some u"
    and "failed (http_get e (listing_request c per_page page u))"
  shows "fst (listReleases e c per_page page) =
           (case http_get e (listing_request c per_page page u) of
              Raises \<Rightarrow> Inl RequestException
            | Returns resp \<Rightarrow> Inl (SystemError (HTTPError (status_code resp)))) \<and>
         releases (fst (snd (listReleases e c per_page page))) = releases c \<and>
         (\<forall>e' per_page' page'.
            requests_of (snd (snd (listReleases e'
                (fst (snd (listReleases e c per_page page))) per_page' page'))) =
              [listing_request (fst (snd (listReleases e c per_page page))) per_page' page' u])"
proof -
  let ?c1 = "c\<lparr>gh_default_header := paging_headers (gh_default_header c) per_page page\<rparr>"
  note f = fetch_releases_kept_on_failure [OF assms(2,3)]
  have r: "fst (listReleases e c per_page page) =
           (case http_get e (listing_request c per_page page u) of
              Raises \<Rightarrow> Inl RequestException
            | Returns resp \<Rightarrow> Inl (SystemError (HTTPError (status_code resp))))"
    using assms(1) by (simp add: listReleases_def f split: outcome.splits)
  have c1: "fst (snd (listReleases e c per_page page)) = ?c1"
    using assms(1) by (simp add: listReleases_client f)
  have again: "requests_of (snd (snd (listReleases e' ?c1 per_page' page'))) =
                 [listing_request ?c1 per_page' page' u]" for e' per_page' page'
    using assms(1,2) by (intro listReleases_miss_requests) simp_all
  from r c1 again show ?thesis by simp
qed

lemma fresh_endpoint:
  "gh_endpoint_release fresh = Some ''https://api.github.com/repos/o/r/releases''"
  by (simp add: fresh_def init_def build_release_url_def)

lemma fresh_empty: "\<not> py_bool (releases fresh)"
  by (simp add: fresh_def init_def build_release_url_def)

theorem failed_listing_stores_nothing_witness:
  "\<not> py_bool (releases fresh) \<and>
   gh_endpoint_release fresh = Some ''https://api.github.com/repos/o/r/releases'' \<and>
   failed (http_get offline (listing_request fresh (Some 30) (Some 1)
             ''https://api.github.com/repos/o/r/releases'')) \<and>
   fst (listReleases offline fresh (Some 30) (Some 1)) = Inl RequestException \<and>
   releases (fst (snd (listReleases offline fresh (Some 30) (Some 1)))) = releases fresh \<and>
   failed (http_get (answering not_found) (listing_request fresh (Some 30) (Some 1)
             ''https://api.github.com/repos/o/r/releases'')) \<and>
   fst (listReleases (answering not_found) fresh (Some 30) (Some 1)) =
     Inl (SystemError (HTTPError 404)) \<and>
   releases (fst (snd (listReleases (answering not_found) fresh (Some 30) (Some 1)))) =
     releases fresh"
proof -
  let ?u = "''https://api.github.com/repos/o/r/releases''"
  have f1: "failed (http_get offline (listing_request fresh (Some 30) (Some 1) ?u))"
    by (simp add: offline_def)
  have f2: "failed (http_get (answering not_found) (listing_request fresh (Some 30) (Some 1) ?u))"
    by (simp add: answering_def not_found_def)
  from failed_listing_stores_nothing [OF fresh_empty fresh_endpoint f1]
  have a: "fst (listReleases offline fresh (Some 30) (Some 1)) = Inl RequestException"
    "releases (fst (snd (listReleases offline fresh (Some 30) (Some 1)))) = releases fresh"
    by (simp_all add: offline_def)
  from failed_listing_stores_nothing [OF fresh_empty fresh_endpoint f2]
  have b: "fst (listReleases (answering not_found) fresh (Some 30) (Some 1)) =
             Inl (SystemError (HTTPError 404))"
    "releases (fst (snd (listReleases (answering not_found) fresh (Some 30) (Some 1)))) =
       releases fresh"
    by (simp_all add: answering_def not_found_def)
  from fresh_empty fresh_endpoint f1 f2 a b show ?thesis by simp
qed

subsection \<open>A listing with no release\<close>

lemma fetch_releases_empty_listing:
  assumes "gh_endpoint_release c = Some u"
    and "http_get e (listing_request c per_page page u) = Returns resp"
    and "200 \<le> status_code resp \<and> status_code resp < 300"
    and "content resp = JsonBody (JArr [])"
  shows "fetch_releases e c per_page page =
           (Inr (),
            c\<lparr>gh_default_header := paging_headers (gh_default_header c) per_page page,
              releases := Frame [] []\<rparr>,
            [HttpGet (listing_request c per_page page u), Stdout (Found 0)])"
  using assms
  by (simp add: fetch_releases_def Let_def listing_request_def raise_for_status_def
      resp_json_def parse_listing_def dt_Frame_def)

text \<open>
  C9, as stated, fails. After the response 200 with an empty array the snapshot is the
  frame with no column, which is false like the list of the constructor, and the next call
  of \<^verbatim>\<open>listReleases\<close> sends a request.
\<close>

theorem empty_listing_counterexample:
  "\<not> py_bool (releases (fst (snd (listReleases (answering no_releases) fresh
                                     (Some 30) (Some 1))))) \<and>
   requests_of (snd (snd (listReleases (answering no_releases)
       (fst (snd (listReleases (answering no_releases) fresh (Some 30) (Some 1))))
       (Some 30) (Some 1)))) \<noteq> []"
  by code_simp

text \<open>
  C9, amended. On a client with an empty snapshot, after a listing request answered with a
  status from 200 to 299 and an empty array, the snapshot is the empty frame, which the
  test \<^verbatim>\<open>not self.releases\<close> does not tell from a snapshot never fetched: a following
  call of \<^verbatim>\<open>listReleases\<close> sends the listing request again.
\<close>

theorem empty_listing_is_fetched_again:
  assumes "\<not> py_bool (releases c)"
    and "gh_endpoint_release c = Some u"
    and "http_get e (listing_request c per_page page u) = Returns resp"
    and "200 \<le> status_code resp \<and> status_code resp < 300"
    and "content resp = JsonBody (JArr [])"
  shows "requests_of (snd (snd (listReleases e c per_page page))) =
           [listing_request c per_page page u] \<and>
         releases (fst (snd (listReleases e c per_page page))) = dt_Frame [] \<and>
         \<not> py_bool (releases (fst (snd (listReleases e c per_page page)))) \<and>
         (\<forall>e' per_page' page'.
            requests_of (snd (snd (listReleases e'
                (fst (snd (listReleases e c per_page page))) per_page' page'))) =
              [listing_request (fst (snd (listReleases e c per_page page))) per_page' page' u])"
proof -
  let ?c1 = "c\<lparr>gh_default_header := paging_headers (gh_default_header c) per_page page,
               releases := Frame [] []\<rparr>"
  note f = fetch_releases_empty_listing [OF assms(2-5)]
  have c1: "fst (snd (listReleases e c per_page page)) = ?c1"
    using assms(1) by (simp add: listReleases_client f)
  have first: "requests_of (snd (snd (listReleases e c per_page page))) =
           [listing_request c per_page page u]"
    using assms(1,2) by (rule listReleases_miss_requests)
  have again: "requests_of (snd (snd (listReleases e' ?c1 per_page' page'))) =
                 [listing_request ?c1 per_page' page' u]" for e' per_page' page'
    using assms(2) by (intro listReleases_miss_requests) simp_all
  from c1 first again show ?thesis by (simp add: dt_Frame_def)
qed

theorem empty_listing_is_fetched_again_witness:
  "\<not> py_bool (releases fresh) \<and>
   gh_endpoint_release fresh = Some ''https://api.github.com/repos/o/r/releases'' \<and>
   http_get (answering no_releases) (listing_request fresh (Some 30) (Some 1)
      ''https://api.github.com/repos/o/r/releases'') = Returns no_releases \<and>
   200 \<le> status_code no_releases \<and> status_code no_releases < 300 \<and>
   content no_releases = JsonBody (JArr []) \<and>
   releases (fst (snd (listReleases (answering no_releases) fresh (Some 30) (Some 1)))) =
     dt_Frame [] \<and>
   requests_of (snd (snd (listReleases offline
       (fst (snd (listReleases (answering no_releases) fresh (Some 30) (Some 1))))
       (Some 5) (Some 2)))) =
     [listing_request (fst (snd (listReleases (answering no_releases) fresh (Some 30) (Some 1))))
        (Some 5) (Some 2) ''https://api.github.com/repos/o/r/releases'']"
proof -
  let ?u = "''https://api.github.com/repos/o/r/releases''"
  have g: "http_get (answering no_releases) (listing_request fresh (Some 30) (Some 1) ?u) =
             Returns no_releases"
    by (simp add: answering_def)
  have st: "200 \<le> status_code no_releases \<and> status_code no_releases < 300"
    by (simp add: no_releases_def)
  have ct: "content no_releases = JsonBody (JArr [])"
    by (simp add: no_releases_def)
  from empty_listing_is_fetched_again [OF fresh_empty fresh_endpoint g st ct]
    fresh_empty fresh_endpoint g st ct
  show ?thesis by simp
qed

subsection \<open>The headers of the client\<close>











subsection \<open>Where the code departs from what it sets out to do\<close>

text \<open>
  C4. The response 200 whose array holds one release object without the key
  \<^verbatim>\<open>id\<close>: the row is built, with the absent value for \<^verbatim>\<open>id\<close>, but the count of
  line 114 subscripts \<^verbatim>\<open>d['id']\<close> and raises a \<^verbatim>\<open>KeyError\<close> before the snapshot
  is assigned, so the snapshot stays the empty list of the constructor.
\<close>

theorem missing_id_raises_before_snapshot_is_stored:
  "build_rows [JObj [(''tag_name'', JStr ''v1.0'')]] =
     Inr [\<lparr>id' = JNull, name = JNull, tag_name = JStr ''v1.0'', created_at = None,
           published_at = None, tarball_url = JNull, zipball_url = JNull\<rparr>] \<and>
   fst (listReleases (answering no_id) fresh (Some 30) (Some 1)) = Inl (KeyError ''id'') \<and>
   releases (fst (snd (listReleases (answering no_id) fresh (Some 30) (Some 1)))) = EmptyList"
  by code_simp

text \<open>
  C7. The archive request answered with 404 and the JSON body of the platform:
  \<^verbatim>\<open>tarfile.open\<close> raises a \<^verbatim>\<open>ReadError\<close>, which nothing catches, and the status
  is never looked at, so no \<^verbatim>\<open>SystemError\<close> is raised. Answered with 404 and an
  archive, the archive is extracted first and the \<^verbatim>\<open>SystemError\<close> comes after.
\<close>

theorem status_is_checked_after_extraction:
  "downloadRelease (answering not_found) example_client ''out'' ''latest'' =
     (Inl ReadError, example_client,
      [Stdout (Downloading (JStr ''v1.0'')
                 (JStr ''https://api.github.com/repos/o/r/tarball/v1.0'')),
       HttpGet \<lparr>req_url = ''https://api.github.com/repos/o/r/tarball/v1.0'', req_params = [],
          req_headers = [(''Accept'', ''application/vnd.github.v3+json'')],
          req_stream = True\<rparr>]) \<and>
   downloadRelease (answering not_found_archive) example_client ''out'' ''latest'' =
     (Inl (SystemError (HTTPError 404)), example_client,
      [Stdout (Downloading (JStr ''v1.0'')
                 (JStr ''https://api.github.com/repos/o/r/tarball/v1.0'')),
       HttpGet \<lparr>req_url = ''https://api.github.com/repos/o/r/tarball/v1.0'', req_params = [],
          req_headers = [(''Accept'', ''application/vnd.github.v3+json'')],
          req_stream = True\<rparr>,
       ExtractAll ''/home/user/out'' [(''a.txt'', ''a'')]])"
  by code_simp

text \<open>
  C8. The first call with \<^verbatim>\<open>per_page = 5\<close> and \<^verbatim>\<open>page = 2\<close>: the request goes to
  the endpoint with no query parameter, and the two values travel as header fields named
  \<^verbatim>\<open>per_page\<close> and \<^verbatim>\<open>page\<close>. With \<^verbatim>\<open>per_page = 0\<close>, a value that is
  present, nothing is sent for it.
\<close>

theorem paging_is_sent_as_headers:
  "requests_of (snd (snd (listReleases offline fresh (Some 5) (Some 2)))) =
     [\<lparr>req_url = ''https://api.github.com/repos/o/r/releases'', req_params = [],
       req_headers = [(''Accept'', ''application/vnd.github.v3+json''), (''per_page'', ''5''),
                      (''page'', ''2'')],
       req_stream = False\<rparr>] \<and>
   requests_of (snd (snd (listReleases offline fresh (Some 0) (Some 2)))) =
     [\<lparr>req_url = ''https://api.github.com/repos/o/r/releases'', req_params = [],
       req_headers = [(''Accept'', ''application/vnd.github.v3+json''), (''page'', ''2'')],
       req_stream = False\<rparr>]"
  by code_simp

end
